theory Spec2Isabelle
  imports Main "HOL-Library.Word"
begin

section \<open>Faults: undefined behaviour and exceptions of the C++ source\<close>

text \<open>
  The frame store of \<^verbatim>\<open>src/cef_client.cpp\<close> computes every byte count as the
  C++ \<^verbatim>\<open>int\<close> expression \<^verbatim>\<open>width * height * 4\<close> and hands it to
  \<^verbatim>\<open>std::vector::resize\<close> and \<^verbatim>\<open>std::memcpy\<close>, both of which take a
  \<^verbatim>\<open>size_t\<close>. Three things can go wrong there, and each is a branch of the model:
  \<^item> the signed multiplication overflows (undefined behaviour);
  \<^item> a negative \<^verbatim>\<open>int\<close> converts to a \<^verbatim>\<open>size_t\<close> above
    \<^verbatim>\<open>max_size()\<close> and \<^verbatim>\<open>resize\<close> throws \<^verbatim>\<open>std::length_error\<close>;
  \<^item> a copy or an unchecked \<^verbatim>\<open>operator[]\<close> leaves its buffer.
  A fault ends the run: no store state is produced. Memory exhaustion
  (\<^verbatim>\<open>std::bad_alloc\<close>) is not modelled, and neither is the mutex that every
  locked method takes: the model is sequential.
\<close>

datatype fault = SignedOverflow | LengthError | OutOfBounds

type_synonym byte = "8 word"

definition INT_MIN :: int where
  "INT_MIN = - 2147483648"

definition INT_MAX :: int where
  "INT_MAX = 2147483647"

text \<open>The product of two \<^verbatim>\<open>int\<close> values, undefined when it is not an \<^verbatim>\<open>int\<close>.\<close>

definition int_mul :: "int \<Rightarrow> int \<Rightarrow> fault + int" where
  "int_mul a b =
     (if INT_MIN \<le> a * b \<and> a * b \<le> INT_MAX then Inr (a * b) else Inl SignedOverflow)"

text \<open>The expression \<^verbatim>\<open>width * height * 4\<close>, evaluated left to right.\<close>

definition byte_count :: "int \<Rightarrow> int \<Rightarrow> fault + int" where
  "byte_count width height =
     (case int_mul width height of
        Inl e \<Rightarrow> Inl e
      | Inr p \<Rightarrow> int_mul p 4)"

text \<open>
  \<^verbatim>\<open>v.resize(n)\<close>: the vector is cut to \<open>n\<close> elements or filled up with zero
  bytes. \<open>resize_to\<close> takes the \<^verbatim>\<open>size_t\<close>, \<open>vector_resize\<close> the \<^verbatim>\<open>int\<close> the
  store passes.
\<close>

definition resize_to :: "byte list \<Rightarrow> nat \<Rightarrow> byte list" where
  "resize_to v n = take n v @ replicate (n - length v) 0"

definition vector_resize :: "byte list \<Rightarrow> int \<Rightarrow> fault + byte list" where
  "vector_resize v n =
     (if n < 0 then Inl LengthError else Inr (resize_to v (nat n)))"

text \<open>
  \<^verbatim>\<open>std::memcpy(dst.data(), src, n)\<close>: the first \<open>n\<close> bytes of \<open>dst\<close> are
  replaced. \<open>src\<close> is the readable memory behind the source pointer.
\<close>

definition memcpy :: "byte list \<Rightarrow> byte list \<Rightarrow> int \<Rightarrow> fault + byte list" where
  "memcpy dst src n =
     (if n < 0 \<or> length src < nat n \<or> length dst < nat n then Inl OutOfBounds
      else Inr (take (nat n) src @ drop (nat n) dst))"

section \<open>The frame store: \<^verbatim>\<open>CefRenderHandlerImpl\<close>\<close>

record CefRenderHandlerImpl =
  m_Buffer :: "byte list"
  m_Width :: int
  m_Height :: int
  m_IsDirty :: bool

record CefRect =
  rect_x :: int
  rect_y :: int
  rect_width :: int
  rect_height :: int

text \<open>The constructor: the members are initialised, then the buffer is sized.\<close>

definition CefRenderHandlerImpl_ctor :: "int \<Rightarrow> int \<Rightarrow> fault + CefRenderHandlerImpl" where
  "CefRenderHandlerImpl_ctor width height =
     (case byte_count width height of
        Inl e \<Rightarrow> Inl e
      | Inr n \<Rightarrow>
          (case vector_resize [] n of
             Inl e \<Rightarrow> Inl e
           | Inr b \<Rightarrow>
               Inr \<lparr>m_Buffer = b, m_Width = width, m_Height = height, m_IsDirty = False\<rparr>))"

text \<open>\<^verbatim>\<open>GetViewRect\<close> writes its output parameter and touches no member.\<close>

definition GetViewRect :: "CefRenderHandlerImpl \<Rightarrow> CefRect" where
  "GetViewRect s =
     \<lparr>rect_x = 0, rect_y = 0, rect_width = m_Width s, rect_height = m_Height s\<rparr>"

text \<open>
  \<^verbatim>\<open>OnPaint\<close>. The browser handle, the paint element type and the dirty rectangles
  are not read by the body, so the model takes the buffer and the dimensions only.
\<close>

definition OnPaint ::
  "CefRenderHandlerImpl \<Rightarrow> byte list \<Rightarrow> int \<Rightarrow> int \<Rightarrow> fault + CefRenderHandlerImpl" where
  "OnPaint s buffer width height =
     (case byte_count width height of
        Inl e \<Rightarrow> Inl e
      | Inr n \<Rightarrow>
          (case (if width \<noteq> m_Width s \<or> height \<noteq> m_Height s
                 then (case vector_resize (m_Buffer s) n of
                         Inl e \<Rightarrow> Inl e
                       | Inr b \<Rightarrow> Inr (s\<lparr>m_Width := width, m_Height := height, m_Buffer := b\<rparr>))
                 else Inr s) of
             Inl e \<Rightarrow> Inl e
           | Inr s1 \<Rightarrow>
               (case memcpy (m_Buffer s1) buffer n of
                  Inl e \<Rightarrow> Inl e
                | Inr b \<Rightarrow> Inr (s1\<lparr>m_Buffer := b, m_IsDirty := True\<rparr>))))"

text \<open>
  The conversion loop of \<^verbatim>\<open>GetTextureData\<close>:
  \<^verbatim>\<open>for (size_t i = 0; i < m_Buffer.size(); i += 4)\<close>, four unchecked reads and
  four unchecked writes per round.
\<close>

function convert_loop :: "byte list \<Rightarrow> nat \<Rightarrow> byte list \<Rightarrow> fault + byte list" where
  "convert_loop buf i data =
     (if i < length buf then
        (if i + 3 < length buf \<and> i + 3 < length data then
           convert_loop buf (i + 4)
             (data[i := buf ! (i + 2), i + 1 := buf ! (i + 1),
                   i + 2 := buf ! i, i + 3 := buf ! (i + 3)])
         else Inl OutOfBounds)
      else Inr data)"
  by pat_completeness auto
termination
  by (relation "measure (\<lambda>(buf, i, data). length buf - i)") auto

declare convert_loop.simps [simp del]

text \<open>
  \<^verbatim>\<open>GetTextureData(data, width, height)\<close>: the three references are outputs,
  \<open>data\<close> is the caller's vector as it was before the call. The store is returned
  beside them, as the method left it.
\<close>

definition GetTextureData ::
  "CefRenderHandlerImpl \<Rightarrow> byte list \<Rightarrow>
     fault + (CefRenderHandlerImpl \<times> byte list \<times> int \<times> int)" where
  "GetTextureData s data =
     (let width = m_Width s;
          height = m_Height s;
          data1 = resize_to data (length (m_Buffer s))
      in case convert_loop (m_Buffer s) 0 data1 of
           Inl e \<Rightarrow> Inl e
         | Inr data2 \<Rightarrow> Inr (s, data2, width, height))"

definition IsDirty :: "CefRenderHandlerImpl \<Rightarrow> bool" where
  "IsDirty s = m_IsDirty s"

definition ClearDirty :: "CefRenderHandlerImpl \<Rightarrow> CefRenderHandlerImpl" where
  "ClearDirty s = s\<lparr>m_IsDirty := False\<rparr>"

definition Resize :: "CefRenderHandlerImpl \<Rightarrow> int \<Rightarrow> int \<Rightarrow> fault + CefRenderHandlerImpl" where
  "Resize s width height =
     (case byte_count width height of
        Inl e \<Rightarrow> Inl e
      | Inr n \<Rightarrow>
          (case vector_resize (m_Buffer s) n of
             Inl e \<Rightarrow> Inl e
           | Inr b \<Rightarrow> Inr (s\<lparr>m_Width := width, m_Height := height, m_Buffer := b\<rparr>)))"

text \<open>
  Call sequences on one store. The observers \<^verbatim>\<open>GetViewRect\<close> and
  \<^verbatim>\<open>IsDirty\<close> return a value and leave the store as it is.
\<close>

datatype store_op =
    Op_OnPaint "byte list" int int
  | Op_GetTextureData "byte list"
  | Op_ClearDirty
  | Op_Resize int int
  | Op_GetViewRect
  | Op_IsDirty

fun exec_op :: "CefRenderHandlerImpl \<Rightarrow> store_op \<Rightarrow> fault + CefRenderHandlerImpl" where
  "exec_op s (Op_OnPaint buffer width height) = OnPaint s buffer width height"
| "exec_op s (Op_GetTextureData data) =
     (case GetTextureData s data of
        Inl e \<Rightarrow> Inl e
      | Inr (s1, data1, width, height) \<Rightarrow> Inr s1)"
| "exec_op s Op_ClearDirty = Inr (ClearDirty s)"
| "exec_op s (Op_Resize width height) = Resize s width height"
| "exec_op s Op_GetViewRect = Inr s"
| "exec_op s Op_IsDirty = Inr s"

fun run_ops :: "CefRenderHandlerImpl \<Rightarrow> store_op list \<Rightarrow> fault + CefRenderHandlerImpl" where
  "run_ops s [] = Inr s"
| "run_ops s (x # xs) =
     (case exec_op s x of
        Inl e \<Rightarrow> Inl e
      | Inr s1 \<Rightarrow> run_ops s1 xs)"

text \<open>The size invariant of the store.\<close>

definition store_inv :: "CefRenderHandlerImpl \<Rightarrow> bool" where
  "store_inv s = (int (length (m_Buffer s)) = m_Width s * m_Height s * 4)"

text \<open>An operation that asks for the dimensions \<open>(w, h)\<close> or for none at all.\<close>

fun keeps_dims :: "int \<Rightarrow> int \<Rightarrow> store_op \<Rightarrow> bool" where
  "keeps_dims w h (Op_OnPaint buffer width height) = (width = w \<and> height = h)"
| "keeps_dims w h (Op_Resize width height) = (width = w \<and> height = h)"
| "keeps_dims w h (Op_GetTextureData data) = True"
| "keeps_dims w h Op_ClearDirty = True"
| "keeps_dims w h Op_GetViewRect = True"
| "keeps_dims w h Op_IsDirty = True"

text \<open>
  Where the converted byte \<open>k\<close> comes from: bytes 0 and 2 of each pixel change
  places, bytes 1 and 3 stay.
\<close>

definition swap_index :: "nat \<Rightarrow> nat" where
  "swap_index k = (if k mod 4 = 0 then k + 2 else if k mod 4 = 2 then k - 2 else k)"

section \<open>The browser lifecycle adapter: \<^verbatim>\<open>CefClientImpl\<close>\<close>

text \<open>
  A \<^verbatim>\<open>CefRefPtr\<close> is a handle or null: \<open>None\<close> is the null pointer. The client
  holds the render handler it was built with (the member \<^verbatim>\<open>m_RenderHandler\<close>, here
  \<open>m_ClientRenderHandler\<close>, since the application has a member of that name too) and
  the browser it was last told of.
\<close>

record ('r, 'b) CefClientImpl =
  m_ClientRenderHandler :: "'r option"
  m_Browser :: "'b option"

definition CefClientImpl_ctor :: "'r option \<Rightarrow> ('r, 'b) CefClientImpl" where
  "CefClientImpl_ctor renderHandler =
     \<lparr>m_ClientRenderHandler = renderHandler, m_Browser = None\<rparr>"

definition OnAfterCreated :: "('r, 'b) CefClientImpl \<Rightarrow> 'b option \<Rightarrow> ('r, 'b) CefClientImpl" where
  "OnAfterCreated c browser = c\<lparr>m_Browser := browser\<rparr>"

definition OnBeforeClose :: "('r, 'b) CefClientImpl \<Rightarrow> 'b option \<Rightarrow> ('r, 'b) CefClientImpl" where
  "OnBeforeClose c browser = c\<lparr>m_Browser := None\<rparr>"

definition GetBrowser :: "('r, 'b) CefClientImpl \<Rightarrow> 'b option" where
  "GetBrowser c = m_Browser c"

definition GetRenderHandler :: "('r, 'b) CefClientImpl \<Rightarrow> 'r option" where
  "GetRenderHandler c = m_ClientRenderHandler c"

text \<open>
  What reaches the client: the two lifecycle notifications of the browser engine and the
  accessor calls of the user interface, which are \<^verbatim>\<open>const\<close>.
\<close>

datatype 'b client_call =
    Call_OnAfterCreated "'b option"
  | Call_OnBeforeClose "'b option"
  | Call_GetBrowser
  | Call_GetRenderHandler

fun client_step :: "('r, 'b) CefClientImpl \<Rightarrow> 'b client_call \<Rightarrow> ('r, 'b) CefClientImpl" where
  "client_step c (Call_OnAfterCreated browser) = OnAfterCreated c browser"
| "client_step c (Call_OnBeforeClose browser) = OnBeforeClose c browser"
| "client_step c Call_GetBrowser = c"
| "client_step c Call_GetRenderHandler = c"

definition client_run :: "('r, 'b) CefClientImpl \<Rightarrow> 'b client_call list \<Rightarrow> ('r, 'b) CefClientImpl" where
  "client_run c cs = foldl client_step c cs"

fun is_created :: "'b client_call \<Rightarrow> bool" where
  "is_created (Call_OnAfterCreated browser) = True"
| "is_created (Call_OnBeforeClose browser) = False"
| "is_created Call_GetBrowser = False"
| "is_created Call_GetRenderHandler = False"

fun is_lifecycle :: "'b client_call \<Rightarrow> bool" where
  "is_lifecycle (Call_OnAfterCreated browser) = True"
| "is_lifecycle (Call_OnBeforeClose browser) = True"
| "is_lifecycle Call_GetBrowser = False"
| "is_lifecycle Call_GetRenderHandler = False"

fun is_closing :: "'b client_call \<Rightarrow> bool" where
  "is_closing (Call_OnAfterCreated browser) = False"
| "is_closing (Call_OnBeforeClose browser) = True"
| "is_closing Call_GetBrowser = False"
| "is_closing Call_GetRenderHandler = False"

section \<open>The graphics device behind \<^verbatim>\<open>VulkanRenderer\<close>\<close>

text \<open>
  The Vulkan driver and the user-interface backend are outside the repository. They are
  modelled by what the application can tell of them: the handles they return, the image
  and view objects that are live, and the sequence of calls made so far. A handle is a
  number, \<^verbatim>\<open>VK_NULL_HANDLE\<close> is 0, and a successful creation returns the next unused
  number. Whether a creation succeeds is the driver's choice, given call by call as a
  \<open>vk_results\<close>. The pixel payload that a staging buffer receives is not modelled.
\<close>

type_synonym handle = nat

definition VK_NULL_HANDLE :: handle where
  "VK_NULL_HANDLE = 0"

datatype VkImageLayout =
    VK_IMAGE_LAYOUT_UNDEFINED
  | VK_IMAGE_LAYOUT_TRANSFER_DST_OPTIMAL
  | VK_IMAGE_LAYOUT_SHADER_READ_ONLY_OPTIMAL

text \<open>
  The calls, with the handles they are given. A creation call carries the handle it
  returned last (\<^verbatim>\<open>VK_NULL_HANDLE\<close> when it failed), \<open>vkCreateImage\<close> the extent
  before it, \<open>vkQueueSubmit\<close> its fence.
\<close>

datatype vk_call =
    vkCreateBuffer handle
  | vkGetBufferMemoryRequirements handle
  | vkAllocateMemory handle
  | vkBindBufferMemory handle handle
  | vkMapMemory handle
  | vkUnmapMemory handle
  | vkCreateImage nat nat handle
  | vkGetImageMemoryRequirements handle
  | vkBindImageMemory handle handle
  | vkAllocateCommandBuffers
  | vkBeginCommandBuffer
  | vkCmdPipelineBarrier handle VkImageLayout VkImageLayout
  | vkCmdCopyBufferToImage handle handle
  | vkEndCommandBuffer
  | vkQueueSubmit handle
  | vkQueueWaitIdle
  | vkDeviceWaitIdle
  | vkWaitForFences handle
  | vkResetFences handle
  | vkDestroyBuffer handle
  | vkFreeMemory handle
  | vkFreeCommandBuffers
  | vkDestroyImage handle
  | vkDestroyImageView handle
  | vkDestroySampler handle
  | vkCreateImageView handle handle
  | vkCreateSampler handle
  | ImGui_ImplVulkan_AddTexture handle handle handle
  | vkAcquireNextImageKHR
  | vkResetCommandBuffer
  | vkCmdBeginRenderPass
  | vkCmdEndRenderPass
  | vkQueuePresentKHR
  | ImGui_Image handle
  | ImGui_ImplVulkan_RenderDrawData

record VulkanRenderer =
  m_InFlightFence :: handle
  live_images :: "handle set"
  live_views :: "handle set"
  next_handle :: handle
  calls :: "vk_call list"

record vk_results =
  create_image_ok :: bool
  allocate_memory_ok :: bool
  create_image_view_ok :: bool
  create_sampler_ok :: bool

definition emit :: "vk_call list \<Rightarrow> VulkanRenderer \<Rightarrow> VulkanRenderer" where
  "emit cs d = d\<lparr>calls := calls d @ cs\<rparr>"

definition fresh :: "VulkanRenderer \<Rightarrow> handle \<times> VulkanRenderer" where
  "fresh d = (next_handle d, d\<lparr>next_handle := Suc (next_handle d)\<rparr>)"

text \<open>The conversion of an \<^verbatim>\<open>int\<close> argument to a \<^verbatim>\<open>uint32_t\<close> parameter.\<close>

definition uint32_of_int :: "int \<Rightarrow> nat" where
  "uint32_of_int x = nat (x mod 4294967296)"

text \<open>
  \<^verbatim>\<open>CreateBuffer\<close> checks no result; the staging buffer and its memory are taken to
  be created.
\<close>

definition CreateBuffer :: "VulkanRenderer \<Rightarrow> handle \<times> handle \<times> VulkanRenderer" where
  "CreateBuffer d =
     (let (buffer, d1) = fresh d;
          (bufferMemory, d2) = fresh d1
      in (buffer, bufferMemory,
          emit [vkCreateBuffer buffer, vkGetBufferMemoryRequirements buffer,
                vkAllocateMemory bufferMemory, vkBindBufferMemory buffer bufferMemory] d2))"

text \<open>
  \<^verbatim>\<open>CreateTextureImage\<close> returns \<^verbatim>\<open>VK_NULL_HANDLE\<close> from two places: when the
  image is not created, and when its memory is not allocated (the image is then
  destroyed again). The upload ends with a wait for the queue.
\<close>

definition CreateTextureImage ::
  "vk_results \<Rightarrow> VulkanRenderer \<Rightarrow> nat \<Rightarrow> nat \<Rightarrow> handle \<times> VulkanRenderer" where
  "CreateTextureImage r d width height =
     (let (stagingBuffer, stagingBufferMemory, d1) = CreateBuffer d;
          d2 = emit [vkMapMemory stagingBufferMemory, vkUnmapMemory stagingBufferMemory] d1
      in if \<not> create_image_ok r
         then (VK_NULL_HANDLE, emit [vkCreateImage width height VK_NULL_HANDLE] d2)
         else
           let (textureImage, d3) = fresh d2;
               d4 = emit [vkCreateImage width height textureImage,
                          vkGetImageMemoryRequirements textureImage]
                      (d3\<lparr>live_images := insert textureImage (live_images d3)\<rparr>)
           in if \<not> allocate_memory_ok r
              then (VK_NULL_HANDLE,
                    emit [vkAllocateMemory VK_NULL_HANDLE, vkDestroyImage textureImage]
                      (d4\<lparr>live_images := live_images d4 - {textureImage}\<rparr>))
              else
                let (textureImageMemory, d5) = fresh d4
                in (textureImage,
                    emit [vkAllocateMemory textureImageMemory,
                          vkBindImageMemory textureImage textureImageMemory,
                          vkAllocateCommandBuffers,
                          vkBeginCommandBuffer,
                          vkCmdPipelineBarrier textureImage
                            VK_IMAGE_LAYOUT_UNDEFINED VK_IMAGE_LAYOUT_TRANSFER_DST_OPTIMAL,
                          vkCmdCopyBufferToImage stagingBuffer textureImage,
                          vkCmdPipelineBarrier textureImage
                            VK_IMAGE_LAYOUT_TRANSFER_DST_OPTIMAL
                            VK_IMAGE_LAYOUT_SHADER_READ_ONLY_OPTIMAL,
                          vkEndCommandBuffer,
                          vkQueueSubmit VK_NULL_HANDLE,
                          vkQueueWaitIdle,
                          vkDestroyBuffer stagingBuffer,
                          vkFreeMemory stagingBufferMemory,
                          vkFreeCommandBuffers] d5))"

definition UpdateTextureImage :: "VulkanRenderer \<Rightarrow> handle \<Rightarrow> nat \<Rightarrow> nat \<Rightarrow> VulkanRenderer" where
  "UpdateTextureImage d img width height =
     (let (stagingBuffer, stagingBufferMemory, d1) = CreateBuffer d
      in emit [vkMapMemory stagingBufferMemory,
               vkUnmapMemory stagingBufferMemory,
               vkAllocateCommandBuffers,
               vkBeginCommandBuffer,
               vkCmdPipelineBarrier img
                 VK_IMAGE_LAYOUT_SHADER_READ_ONLY_OPTIMAL VK_IMAGE_LAYOUT_TRANSFER_DST_OPTIMAL,
               vkCmdCopyBufferToImage stagingBuffer img,
               vkCmdPipelineBarrier img
                 VK_IMAGE_LAYOUT_TRANSFER_DST_OPTIMAL VK_IMAGE_LAYOUT_SHADER_READ_ONLY_OPTIMAL,
               vkEndCommandBuffer,
               vkQueueSubmit VK_NULL_HANDLE,
               vkQueueWaitIdle,
               vkDestroyBuffer stagingBuffer,
               vkFreeMemory stagingBufferMemory,
               vkFreeCommandBuffers] d1)"

definition CreateImageView :: "vk_results \<Rightarrow> VulkanRenderer \<Rightarrow> handle \<Rightarrow> handle \<times> VulkanRenderer" where
  "CreateImageView r d img =
     (if \<not> create_image_view_ok r
      then (VK_NULL_HANDLE, emit [vkCreateImageView img VK_NULL_HANDLE] d)
      else
        let (imageView, d1) = fresh d
        in (imageView,
            emit [vkCreateImageView img imageView]
              (d1\<lparr>live_views := insert imageView (live_views d1)\<rparr>)))"

definition CreateTextureSampler :: "vk_results \<Rightarrow> VulkanRenderer \<Rightarrow> handle \<times> VulkanRenderer" where
  "CreateTextureSampler r d =
     (if \<not> create_sampler_ok r
      then (VK_NULL_HANDLE, emit [vkCreateSampler VK_NULL_HANDLE] d)
      else
        let (sampler, d1) = fresh d
        in (sampler, emit [vkCreateSampler sampler] d1))"

text \<open>
  The backend's \<^verbatim>\<open>ImGui_ImplVulkan_AddTexture\<close> hands out a descriptor set for a
  sampler and a view.
\<close>

definition AddTexture :: "VulkanRenderer \<Rightarrow> handle \<Rightarrow> handle \<Rightarrow> handle \<times> VulkanRenderer" where
  "AddTexture d sampler imageView =
     (let (descriptorSet, d1) = fresh d
      in (descriptorSet, emit [ImGui_ImplVulkan_AddTexture sampler imageView descriptorSet] d1))"

definition DestroyImageView :: "VulkanRenderer \<Rightarrow> handle \<Rightarrow> VulkanRenderer" where
  "DestroyImageView d imageView =
     emit [vkDestroyImageView imageView] (d\<lparr>live_views := live_views d - {imageView}\<rparr>)"

definition DestroyImage :: "VulkanRenderer \<Rightarrow> handle \<Rightarrow> VulkanRenderer" where
  "DestroyImage d img =
     emit [vkDestroyImage img] (d\<lparr>live_images := live_images d - {img}\<rparr>)"

definition BeginFrame :: "VulkanRenderer \<Rightarrow> VulkanRenderer" where
  "BeginFrame d =
     emit [vkWaitForFences (m_InFlightFence d),
           vkResetFences (m_InFlightFence d),
           vkAcquireNextImageKHR,
           vkResetCommandBuffer,
           vkBeginCommandBuffer,
           vkCmdBeginRenderPass] d"

definition EndFrame :: "VulkanRenderer \<Rightarrow> VulkanRenderer" where
  "EndFrame d =
     emit [vkCmdEndRenderPass,
           vkEndCommandBuffer,
           vkQueueSubmit (m_InFlightFence d),
           vkQueuePresentKHR] d"

section \<open>The texture bridge: \<^verbatim>\<open>Application\<close>\<close>

record Application =
  m_Renderer :: VulkanRenderer
  m_RenderHandler :: CefRenderHandlerImpl
  m_CefTextureImage :: handle
  m_CefTextureMemory :: handle
  m_CefTextureView :: handle
  m_CefTextureSampler :: handle
  m_CefDescriptorSet :: handle
  m_BrowserWidth :: int
  m_BrowserHeight :: int

text \<open>
  The application once \<^verbatim>\<open>Initialize\<close> has run: the default member initialisers,
  and the render handler that \<^verbatim>\<open>CreateBrowser\<close> builds with the browser dimensions.
\<close>

definition Application_init :: "VulkanRenderer \<Rightarrow> fault + Application" where
  "Application_init d =
     (case CefRenderHandlerImpl_ctor 800 600 of
        Inl e \<Rightarrow> Inl e
      | Inr rh \<Rightarrow>
          Inr \<lparr>m_Renderer = d, m_RenderHandler = rh,
               m_CefTextureImage = VK_NULL_HANDLE, m_CefTextureMemory = VK_NULL_HANDLE,
               m_CefTextureView = VK_NULL_HANDLE, m_CefTextureSampler = VK_NULL_HANDLE,
               m_CefDescriptorSet = VK_NULL_HANDLE,
               m_BrowserWidth = 800, m_BrowserHeight = 600\<rparr>)"

text \<open>
  The recreation path of \<^verbatim>\<open>UpdateCefTexture\<close> is two blocks of statements, named
  here after the comments that head them in the source. \<^verbatim>\<open>// Clean up old resources\<close>:
  the view is destroyed if there is one, then the image, whose memory member is freed
  with it (the member is never assigned, so it is \<^verbatim>\<open>VK_NULL_HANDLE\<close>).
\<close>

definition clean_up_old_resources :: "Application \<Rightarrow> Application" where
  "clean_up_old_resources a =
     (let d1 = (if m_CefTextureView a \<noteq> VK_NULL_HANDLE
                then DestroyImageView (m_Renderer a) (m_CefTextureView a)
                else m_Renderer a);
          d2 = (if m_CefTextureImage a \<noteq> VK_NULL_HANDLE
                then emit [vkFreeMemory (m_CefTextureMemory a)]
                       (DestroyImage d1 (m_CefTextureImage a))
                else d1)
      in a\<lparr>m_Renderer := d2\<rparr>)"

text \<open>
  \<^verbatim>\<open>// Create new texture\<close> and \<^verbatim>\<open>// Update descriptor set for ImGui\<close>: the image,
  its view, the sampler if there is none yet, and the descriptor set, each result stored
  in its member unchecked. \<open>r\<close> is what the driver answers to the creations.
\<close>

definition create_new_texture :: "vk_results \<Rightarrow> Application \<Rightarrow> int \<Rightarrow> int \<Rightarrow> Application" where
  "create_new_texture r a width height =
     (let (img, d1) =
            CreateTextureImage r (m_Renderer a) (uint32_of_int width) (uint32_of_int height);
          (imageView, d2) = CreateImageView r d1 img;
          (sampler, d3) =
            (if m_CefTextureSampler a = VK_NULL_HANDLE
             then CreateTextureSampler r d2
             else (m_CefTextureSampler a, d2));
          (descriptorSet, d4) = AddTexture d3 sampler imageView
      in a\<lparr>m_Renderer := d4, m_CefTextureImage := img, m_CefTextureView := imageView,
            m_CefTextureSampler := sampler, m_CefDescriptorSet := descriptorSet\<rparr>)"

text \<open>
  \<^verbatim>\<open>UpdateCefTexture\<close>: nothing happens unless the store is dirty; the frame is read
  into a fresh vector; the texture is recreated when there is no image or a dimension
  differs from the stored one, and updated in place otherwise; the dirty flag is cleared
  last.
\<close>

definition UpdateCefTexture :: "vk_results \<Rightarrow> Application \<Rightarrow> fault + Application" where
  "UpdateCefTexture r a =
     (if \<not> IsDirty (m_RenderHandler a) then Inr a
      else
        case GetTextureData (m_RenderHandler a) [] of
          Inl e \<Rightarrow> Inl e
        | Inr (rh, textureData, width, height) \<Rightarrow>
            let a0 = a\<lparr>m_RenderHandler := rh\<rparr>;
                a1 =
                  (if m_CefTextureImage a0 = VK_NULL_HANDLE \<or> width \<noteq> m_BrowserWidth a0
                      \<or> height \<noteq> m_BrowserHeight a0
                   then
                     create_new_texture r
                       (clean_up_old_resources
                          (a0\<lparr>m_BrowserWidth := width, m_BrowserHeight := height\<rparr>))
                       width height
                   else
                     a0\<lparr>m_Renderer :=
                          UpdateTextureImage (m_Renderer a0) (m_CefTextureImage a0)
                            (uint32_of_int width) (uint32_of_int height)\<rparr>)
            in Inr (a1\<lparr>m_RenderHandler := ClearDirty (m_RenderHandler a1)\<rparr>))"

text \<open>
  The spec's \<^verbatim>\<open>Sync(pixels, width, height)\<close> on the code: the frame reaches the store
  through \<^verbatim>\<open>OnPaint\<close>, and the frame loop's next \<^verbatim>\<open>UpdateCefTexture\<close> takes it
  from there.
\<close>

definition Sync ::
  "vk_results \<Rightarrow> Application \<Rightarrow> byte list \<Rightarrow> int \<Rightarrow> int \<Rightarrow> fault + Application" where
  "Sync r a buffer width height =
     (case OnPaint (m_RenderHandler a) buffer width height of
        Inl e \<Rightarrow> Inl e
      | Inr rh \<Rightarrow> UpdateCefTexture r (a\<lparr>m_RenderHandler := rh\<rparr>))"

text \<open>
  The part of \<^verbatim>\<open>RenderUI\<close> that uses the texture: the image widget is drawn when a
  descriptor set is bound, the placeholder otherwise. Input forwarding is left out.
\<close>

definition RenderUI :: "Application \<Rightarrow> Application" where
  "RenderUI a =
     (if m_CefDescriptorSet a \<noteq> VK_NULL_HANDLE
      then a\<lparr>m_Renderer := emit [ImGui_Image (m_CefDescriptorSet a)] (m_Renderer a)\<rparr>
      else a)"

text \<open>
  One round of the loop of \<^verbatim>\<open>Run\<close>. \<open>paint\<close> is the paint notification that the
  browser engine delivers while \<^verbatim>\<open>CefDoMessageLoopWork\<close> runs, if there is one. The
  window events and the frame bookkeeping of the user-interface toolkit make no device
  call and are left out; the texture is updated before \<^verbatim>\<open>BeginFrame\<close> waits for the
  fence of the previous frame.
\<close>

definition Run_body ::
  "vk_results \<Rightarrow> (byte list \<times> int \<times> int) option \<Rightarrow> Application \<Rightarrow> fault + Application" where
  "Run_body r paint a =
     (case (case paint of
              None \<Rightarrow> Inr a
            | Some (buffer, width, height) \<Rightarrow>
                (case OnPaint (m_RenderHandler a) buffer width height of
                   Inl e \<Rightarrow> Inl e
                 | Inr rh \<Rightarrow> Inr (a\<lparr>m_RenderHandler := rh\<rparr>))) of
        Inl e \<Rightarrow> Inl e
      | Inr a1 \<Rightarrow>
          (case UpdateCefTexture r a1 of
             Inl e \<Rightarrow> Inl e
           | Inr a2 \<Rightarrow>
               let a3 = a2\<lparr>m_Renderer := BeginFrame (m_Renderer a2)\<rparr>;
                   a4 = RenderUI a3;
                   a5 = a4\<lparr>m_Renderer := emit [ImGui_ImplVulkan_RenderDrawData] (m_Renderer a4)\<rparr>
               in Inr (a5\<lparr>m_Renderer := EndFrame (m_Renderer a5)\<rparr>)))"

text \<open>
  The texture part of \<^verbatim>\<open>Application::Cleanup\<close>: the device is idle before anything
  is destroyed.
\<close>

definition Cleanup :: "Application \<Rightarrow> Application" where
  "Cleanup a =
     (let d1 = emit [vkDeviceWaitIdle] (m_Renderer a);
          d2 = (if m_CefTextureSampler a \<noteq> VK_NULL_HANDLE
                then emit [vkDestroySampler (m_CefTextureSampler a)] d1
                else d1);
          d3 = (if m_CefTextureView a \<noteq> VK_NULL_HANDLE
                then DestroyImageView d2 (m_CefTextureView a)
                else d2);
          d4 = (if m_CefTextureImage a \<noteq> VK_NULL_HANDLE
                then emit [vkFreeMemory (m_CefTextureMemory a)]
                       (DestroyImage d3 (m_CefTextureImage a))
                else d3)
      in a\<lparr>m_Renderer := d4\<rparr>)"

text \<open>
  Counters read off the call sequence. A recreation is a call of
  \<^verbatim>\<open>CreateTextureImage\<close>, which asks for one image; an in-place update is a call of
  \<^verbatim>\<open>UpdateTextureImage\<close>, the only place where an image goes from the
  shader-readable layout back to the transfer layout.
\<close>

fun is_recreation :: "vk_call \<Rightarrow> bool" where
  "is_recreation (vkCreateImage width height img) = True"
| "is_recreation c = False"

fun is_in_place_update :: "vk_call \<Rightarrow> bool" where
  "is_in_place_update (vkCmdPipelineBarrier img old new) =
     (old = VK_IMAGE_LAYOUT_SHADER_READ_ONLY_OPTIMAL \<and> new = VK_IMAGE_LAYOUT_TRANSFER_DST_OPTIMAL)"
| "is_in_place_update c = False"

definition recreation_count :: "vk_call list \<Rightarrow> nat" where
  "recreation_count cs = length (filter is_recreation cs)"

definition in_place_count :: "vk_call list \<Rightarrow> nat" where
  "in_place_count cs = length (filter is_in_place_update cs)"



text \<open>
  The ordering rule of the spec, as a monitor over a call sequence: work is pending from
  a queue submission until the next wait (for the queue, the device or the fences), and
  an image or a view must not be destroyed while work is pending. \<open>pending\<close> is the
  state before the first call.
\<close>

fun destroys_after_wait :: "bool \<Rightarrow> vk_call list \<Rightarrow> bool" where
  "destroys_after_wait pending [] = True"
| "destroys_after_wait pending (vkQueueSubmit fence # cs) = destroys_after_wait True cs"
| "destroys_after_wait pending (vkQueueWaitIdle # cs) = destroys_after_wait False cs"
| "destroys_after_wait pending (vkDeviceWaitIdle # cs) = destroys_after_wait False cs"
| "destroys_after_wait pending (vkWaitForFences fence # cs) = destroys_after_wait False cs"
| "destroys_after_wait pending (vkDestroyImage img # cs) =
     (\<not> pending \<and> destroys_after_wait pending cs)"
| "destroys_after_wait pending (vkDestroyImageView imageView # cs) =
     (\<not> pending \<and> destroys_after_wait pending cs)"
| "destroys_after_wait pending (c # cs) = destroys_after_wait pending cs"

text \<open>
  The stored browser dimensions are the dimensions of the texture: when there is an
  image, it was created with the extent that the two members hold.
\<close>

definition texture_extent_recorded :: "Application \<Rightarrow> bool" where
  "texture_extent_recorded a =
     (m_CefTextureImage a = VK_NULL_HANDLE \<or>
      vkCreateImage (uint32_of_int (m_BrowserWidth a)) (uint32_of_int (m_BrowserHeight a))
        (m_CefTextureImage a) \<in> set (calls (m_Renderer a)))"

section \<open>Concrete inputs\<close>

text \<open>
  The two-pixel frame of the spec's end-to-end scenario, a one-pixel frame, and the store
  states that painting them produces; a device on which nothing has been created but the
  frame fence, a driver that creates everything it is asked for, and one that creates no
  image.
\<close>

definition frame_2x1 :: "byte list" where
  "frame_2x1 = [10, 20, 30, 40, 50, 60, 70, 80]"

definition frame_1x1 :: "byte list" where
  "frame_1x1 = [1, 2, 3, 4]"

definition device0 :: VulkanRenderer where
  "device0 =
     \<lparr>m_InFlightFence = 1, live_images = {}, live_views = {}, next_handle = 2, calls = []\<rparr>"

definition driver_ok :: vk_results where
  "driver_ok =
     \<lparr>create_image_ok = True, allocate_memory_ok = True,
      create_image_view_ok = True, create_sampler_ok = True\<rparr>"

definition driver_no_image :: vk_results where
  "driver_no_image =
     \<lparr>create_image_ok = False, allocate_memory_ok = True,
      create_image_view_ok = True, create_sampler_ok = True\<rparr>"

definition store_empty :: CefRenderHandlerImpl where
  "store_empty = \<lparr>m_Buffer = [], m_Width = 0, m_Height = 0, m_IsDirty = False\<rparr>"

definition store_1x1 :: CefRenderHandlerImpl where
  "store_1x1 = \<lparr>m_Buffer = frame_1x1, m_Width = 1, m_Height = 1, m_IsDirty = True\<rparr>"

definition store_2x1 :: CefRenderHandlerImpl where
  "store_2x1 = \<lparr>m_Buffer = frame_2x1, m_Width = 2, m_Height = 1, m_IsDirty = True\<rparr>"



section \<open>Properties of the frame store\<close>

subsection \<open>Byte counts, resizing and copying\<close>



lemma int_mul_Inr: "int_mul a b = Inr p \<Longrightarrow> p = a * b \<and> INT_MIN \<le> p \<and> p \<le> INT_MAX"
  by (auto simp: int_mul_def split: if_splits)

lemma byte_count_Inr:
  "byte_count w h = Inr n \<Longrightarrow> n = w * h * 4 \<and> INT_MIN \<le> n \<and> n \<le> INT_MAX"
  by (auto simp: byte_count_def split: sum.splits dest!: int_mul_Inr)

lemma byte_count_ok:
  assumes "0 \<le> w * h * 4" "w * h * 4 \<le> INT_MAX"
  shows "byte_count w h = Inr (w * h * 4)"
proof -
  define p where "p = w * h"
  have p: "0 \<le> p" "p * 4 \<le> 2147483647"
    using assms unfolding p_def INT_MAX_def by linarith+
  have "int_mul w h = Inr p"
    unfolding int_mul_def INT_MIN_def INT_MAX_def p_def [symmetric] using p by simp
  moreover have "int_mul p 4 = Inr (p * 4)"
    unfolding int_mul_def INT_MIN_def INT_MAX_def using p by simp
  ultimately show ?thesis by (simp add: byte_count_def p_def)
qed

lemma length_resize_to [simp]: "length (resize_to v n) = n"
  by (simp add: resize_to_def)

lemma vector_resize_Inr: "vector_resize v n = Inr b \<Longrightarrow> 0 \<le> n \<and> int (length b) = n"
  by (auto simp: vector_resize_def split: if_splits)

lemma memcpy_Inr:
  "memcpy dst src n = Inr b \<Longrightarrow>
     0 \<le> n \<and> length b = length dst \<and> nat n \<le> length src \<and> nat n \<le> length dst \<and>
     b = take (nat n) src @ drop (nat n) dst"
  by (auto simp: memcpy_def split: if_splits)

lemma convert_loop_ok:
  "4 dvd i \<Longrightarrow> 4 dvd length buf \<Longrightarrow> length data = length buf \<Longrightarrow>
   \<exists>out. convert_loop buf i data = Inr out \<and> length out = length buf \<and>
     (\<forall>k<length buf. out ! k = (if k < i then data ! k else buf ! swap_index k))"
proof (induction buf i data rule: convert_loop.induct)
  case (1 buf i data)
  show ?case
  proof (cases "i < length buf")
    case False
    then show ?thesis using "1.prems" by (simp add: convert_loop.simps)
  next
    case True
    with "1.prems" have in_range: "i + 3 < length buf" "i + 3 < length data"
      by (auto elim!: dvdE)
    let ?d = "data[i := buf ! (i + 2), i + 1 := buf ! (i + 1), i + 2 := buf ! i, i + 3 := buf ! (i + 3)]"
    have "4 dvd i + 4" using "1.prems" by simp
    with "1.IH" [OF True] in_range "1.prems"
    obtain out where out: "convert_loop buf (i + 4) ?d = Inr out" "length out = length buf"
      "\<forall>k<length buf. out ! k = (if k < i + 4 then ?d ! k else buf ! swap_index k)"
      by auto
    have step: "convert_loop buf i data = convert_loop buf (i + 4) ?d"
      using True in_range by (subst convert_loop.simps) simp
    have "out ! k = (if k < i then data ! k else buf ! swap_index k)" if "k < length buf" for k
    proof -
      from "1.prems" have "i mod 4 = 0" by presburger
      then have sw: "swap_index i = i + 2" "swap_index (i + 1) = i + 1"
        "swap_index (i + 2) = i" "swap_index (i + 3) = i + 3"
        unfolding swap_index_def by (presburger, presburger, presburger, presburger)
      consider "k < i" | "k = i" | "k = i + 1" | "k = i + 2" | "k = i + 3" | "i + 4 \<le> k"
        by linarith
      then show ?thesis
      proof cases
        case 1 then show ?thesis using out(3) that by simp
      next
        case 2 then show ?thesis using out(3) that in_range sw by simp
      next
        case 3 then show ?thesis using out(3) that in_range sw by simp
      next
        case 4 then show ?thesis using out(3) that in_range sw by simp
      next
        case 5 then show ?thesis using out(3) that in_range sw by simp
      next
        case 6 then show ?thesis using out(3) that by simp
      qed
    qed
    with out step show ?thesis by simp
  qed
qed


lemma convert_loop_whole:
  assumes "4 dvd length buf" "length data = length buf"
  shows "\<exists>out. convert_loop buf 0 data = Inr out \<and> length out = length buf \<and>
           (\<forall>k<length buf. out ! k = buf ! swap_index k)"
  using convert_loop_ok [of 0 buf data] assms by simp

lemma store_inv_dvd: "store_inv s \<Longrightarrow> 4 dvd length (m_Buffer s)"
proof -
  assume "store_inv s"
  then have "int (length (m_Buffer s)) = 4 * (m_Width s * m_Height s)"
    by (simp add: store_inv_def)
  then have "(4::int) dvd int (length (m_Buffer s))" by simp
  then show ?thesis by presburger
qed

lemma GetTextureData_returns:
  assumes "store_inv s"
  shows "\<exists>out. GetTextureData s data = Inr (s, out, m_Width s, m_Height s) \<and>
           length out = length (m_Buffer s) \<and>
           (\<forall>k<length out. out ! k = m_Buffer s ! swap_index k)"
proof -
  from convert_loop_whole [OF store_inv_dvd [OF assms], of "resize_to data (length (m_Buffer s))"]
  obtain out where "convert_loop (m_Buffer s) 0 (resize_to data (length (m_Buffer s))) = Inr out"
    "length out = length (m_Buffer s)" "\<forall>k<length (m_Buffer s). out ! k = m_Buffer s ! swap_index k"
    by auto
  then show ?thesis by (simp add: GetTextureData_def)
qed

lemma GetTextureData_Inr:
  "GetTextureData s data = Inr (s', out, w, h) \<Longrightarrow> s' = s \<and> w = m_Width s \<and> h = m_Height s"
  by (auto simp: GetTextureData_def Let_def split: sum.splits)

lemma ctor_Inr:
  "CefRenderHandlerImpl_ctor w h = Inr s \<Longrightarrow>
     m_Width s = w \<and> m_Height s = h \<and> \<not> m_IsDirty s \<and> store_inv s"
  by (auto simp: CefRenderHandlerImpl_ctor_def store_inv_def
      split: sum.splits dest!: byte_count_Inr vector_resize_Inr)

lemma Resize_Inr:
  "Resize s w h = Inr s' \<Longrightarrow>
     m_Width s' = w \<and> m_Height s' = h \<and> m_IsDirty s' = m_IsDirty s \<and> store_inv s'"
  by (auto simp: Resize_def store_inv_def
      split: sum.splits dest!: byte_count_Inr vector_resize_Inr)

lemma OnPaint_Inr:
  assumes "OnPaint s buf w h = Inr s'"
  shows "m_Width s' = w \<and> m_Height s' = h \<and> m_IsDirty s' \<and>
         0 \<le> w * h * 4 \<and> w * h * 4 \<le> INT_MAX \<and> nat (w * h * 4) \<le> length buf \<and>
         (w \<noteq> m_Width s \<or> h \<noteq> m_Height s \<longrightarrow> store_inv s') \<and>
         (store_inv s \<longrightarrow> store_inv s') \<and>
         (store_inv s' \<longrightarrow> m_Buffer s' = take (nat (w * h * 4)) buf)"
proof -
  define N where "N = w * h * 4"
  let ?mid = "if w \<noteq> m_Width s \<or> h \<noteq> m_Height s
              then (case vector_resize (m_Buffer s) N of Inl e \<Rightarrow> Inl e
                    | Inr b \<Rightarrow> Inr (s\<lparr>m_Width := w, m_Height := h, m_Buffer := b\<rparr>))
              else Inr s"
  from assms obtain n where "byte_count w h = Inr n"
    by (cases "byte_count w h") (auto simp: OnPaint_def)
  with byte_count_Inr [of w h n] have n: "byte_count w h = Inr N" and le: "N \<le> INT_MAX"
    by (simp_all add: N_def)
  from assms obtain s1 where s1: "?mid = Inr s1"
    unfolding OnPaint_def n by (cases ?mid) auto
  from assms s1 obtain b where b: "memcpy (m_Buffer s1) buf N = Inr b"
    and s': "s' = s1\<lparr>m_Buffer := b, m_IsDirty := True\<rparr>"
    unfolding OnPaint_def n by (cases "memcpy (m_Buffer s1) buf N") auto
  from memcpy_Inr [OF b] have m: "0 \<le> N" "length b = length (m_Buffer s1)"
    "nat N \<le> length buf" "nat N \<le> length (m_Buffer s1)"
    "b = take (nat N) buf @ drop (nat N) (m_Buffer s1)" by auto
  have dims: "m_Width s1 = w" "m_Height s1 = h"
    using s1 by (auto split: if_splits sum.splits)
  have changed: "int (length (m_Buffer s1)) = N" if "w \<noteq> m_Width s \<or> h \<noteq> m_Height s"
    using s1 that by (auto split: sum.splits dest!: vector_resize_Inr)
  have same: "s1 = s" if "\<not> (w \<noteq> m_Width s \<or> h \<noteq> m_Height s)"
    using s1 that by auto
  have inv_iff: "store_inv s' \<longleftrightarrow> int (length (m_Buffer s1)) = N"
    using dims m(2) by (simp add: store_inv_def s' N_def)
  have inv1: "store_inv s'" if "w \<noteq> m_Width s \<or> h \<noteq> m_Height s"
    using changed [OF that] inv_iff by simp
  have inv2: "store_inv s'" if "store_inv s"
  proof (cases "w \<noteq> m_Width s \<or> h \<noteq> m_Height s")
    case True then show ?thesis by (rule inv1)
  next
    case False
    with same have "s1 = s" by simp
    moreover from False that have "int (length (m_Buffer s)) = N"
      by (simp add: store_inv_def N_def)
    ultimately show ?thesis using inv_iff by simp
  qed
  have buf: "m_Buffer s' = take (nat N) buf" if "store_inv s'"
  proof -
    from that inv_iff have "nat N = length (m_Buffer s1)" by simp
    with m(5) show ?thesis by (simp add: s')
  qed
  have c1: "m_Width s' = w" "m_Height s' = h" "m_IsDirty s'"
    using dims by (simp_all add: s')
  show ?thesis
    unfolding N_def [symmetric] using c1 m(1,3) le inv1 inv2 buf by blast
qed

lemma OnPaint_returns:
  assumes "store_inv s" "0 \<le> w * h * 4" "w * h * 4 \<le> INT_MAX" "nat (w * h * 4) \<le> length buf"
  shows "\<exists>s'. OnPaint s buf w h = Inr s'"
proof -
  define n where "n = w * h * 4"
  have bc: "byte_count w h = Inr n"
    unfolding n_def by (rule byte_count_ok [OF assms(2,3)])
  have n: "0 \<le> n" "nat n \<le> length buf" using assms by (simp_all add: n_def)
  show ?thesis
  proof (cases "w \<noteq> m_Width s \<or> h \<noteq> m_Height s")
    case True
    then show ?thesis using n
      by (simp add: OnPaint_def bc vector_resize_def memcpy_def)
  next
    case False
    then have "int (length (m_Buffer s)) = n" using assms(1) by (simp add: store_inv_def n_def)
    then have "nat n = length (m_Buffer s)" by simp
    then show ?thesis using n False
      unfolding OnPaint_def bc by (simp add: memcpy_def)
  qed
qed

lemma ClearDirty_inv [simp]: "store_inv (ClearDirty s) = store_inv s"
  by (simp add: store_inv_def ClearDirty_def)

lemma exec_op_inv: "store_inv s \<Longrightarrow> exec_op s x = Inr s' \<Longrightarrow> store_inv s'"
proof (cases x)
  case (Op_OnPaint buf w h)
  then show "store_inv s \<Longrightarrow> exec_op s x = Inr s' \<Longrightarrow> store_inv s'"
    using OnPaint_Inr [of s buf w h s'] by simp
next
  case (Op_GetTextureData data)
  then show "store_inv s \<Longrightarrow> exec_op s x = Inr s' \<Longrightarrow> store_inv s'"
    by (auto split: sum.splits dest: GetTextureData_Inr)
next
  case (Op_Resize w h)
  then show "store_inv s \<Longrightarrow> exec_op s x = Inr s' \<Longrightarrow> store_inv s'"
    using Resize_Inr [of s w h s'] by simp
qed auto

lemma run_ops_inv: "store_inv s \<Longrightarrow> run_ops s ops = Inr s' \<Longrightarrow> store_inv s'"
  by (induction ops arbitrary: s) (auto split: sum.splits dest: exec_op_inv)

lemma run_ops_append:
  "run_ops s (xs @ ys) = (case run_ops s xs of Inl e \<Rightarrow> Inl e | Inr s1 \<Rightarrow> run_ops s1 ys)"
  by (induction xs arbitrary: s) (auto split: sum.splits)

lemma exec_op_dims:
  "keeps_dims w h x \<Longrightarrow> m_Width s = w \<Longrightarrow> m_Height s = h \<Longrightarrow> exec_op s x = Inr s' \<Longrightarrow>
     m_Width s' = w \<and> m_Height s' = h"
  by (cases x)
     (auto simp: ClearDirty_def split: sum.splits dest: OnPaint_Inr Resize_Inr GetTextureData_Inr)

lemma run_ops_dims:
  "list_all (keeps_dims w h) ops \<Longrightarrow> m_Width s = w \<Longrightarrow> m_Height s = h \<Longrightarrow>
     run_ops s ops = Inr s' \<Longrightarrow> m_Width s' = w \<and> m_Height s' = h"
proof (induction ops arbitrary: s)
  case Nil
  then show ?case by simp
next
  case (Cons x xs)
  from Cons.prems obtain s1 where s1: "exec_op s x = Inr s1" "run_ops s1 xs = Inr s'"
    by (auto split: sum.splits)
  from exec_op_dims [OF _ Cons.prems(2,3) s1(1)] Cons.prems(1)
  have "m_Width s1 = w" "m_Height s1 = h" by auto
  with Cons.IH [OF _ _ _ s1(2)] Cons.prems(1) show ?case by simp
qed


lemma GetTextureData_map:
  assumes "store_inv s"
  shows "GetTextureData s data =
           Inr (s, map (\<lambda>k. m_Buffer s ! swap_index k) [0..<length (m_Buffer s)],
                m_Width s, m_Height s)"
proof -
  from GetTextureData_returns [OF assms, of data] obtain out where
    out: "GetTextureData s data = Inr (s, out, m_Width s, m_Height s)"
      "length out = length (m_Buffer s)" "\<forall>k<length out. out ! k = m_Buffer s ! swap_index k"
    by blast
  have "out = map (\<lambda>k. m_Buffer s ! swap_index k) [0..<length (m_Buffer s)]"
    using out(2,3) by (intro nth_equalityI) simp_all
  with out(1) show ?thesis by simp
qed

lemma nth_swap_index:
  "k mod 4 = 1 \<or> k mod 4 = 3 \<Longrightarrow> swap_index k = k"
  "k mod 4 = 0 \<Longrightarrow> swap_index k = k + 2"
  "k mod 4 = 2 \<Longrightarrow> swap_index k = k - 2"
  by (auto simp: swap_index_def)


subsection \<open>The concrete inputs, evaluated\<close>

lemma byte_count_examples:
  "byte_count 0 0 = Inr 0" "byte_count 1 1 = Inr 4" "byte_count 2 1 = Inr 8"
  by (simp_all add: byte_count_def int_mul_def INT_MIN_def INT_MAX_def)

lemma ctor_empty: "CefRenderHandlerImpl_ctor 0 0 = Inr store_empty"
  by (simp add: CefRenderHandlerImpl_ctor_def byte_count_examples vector_resize_def resize_to_def
      store_empty_def)

lemma OnPaint_empty_1x1: "OnPaint store_empty frame_1x1 1 1 = Inr store_1x1"
  by (simp add: OnPaint_def byte_count_examples vector_resize_def resize_to_def memcpy_def
      store_empty_def store_1x1_def frame_1x1_def)

lemma OnPaint_1x1_2x1: "OnPaint store_1x1 frame_2x1 2 1 = Inr store_2x1"
  by (simp add: OnPaint_def byte_count_examples vector_resize_def resize_to_def memcpy_def
      store_2x1_def store_1x1_def frame_1x1_def frame_2x1_def)

lemma GetTextureData_2x1:
  "GetTextureData store_2x1 [] = Inr (store_2x1, [30, 20, 10, 40, 70, 60, 50, 80], 2, 1)"
  by (simp add: GetTextureData_def store_2x1_def frame_2x1_def resize_to_def convert_loop.simps
      numeral_eq_Suc)

lemma store_inv_2x1: "store_inv store_2x1"
  by (simp add: store_inv_def store_2x1_def frame_2x1_def)


subsection \<open>The claims about the frame store\<close>

text \<open>
  Claim C10. \<^verbatim>\<open>GetTextureData\<close> is a pure observer of the store: in every state that
  satisfies the size invariant it returns, and whenever it returns, the store it leaves
  is the store it found: the pixel buffer, the width, the height and the dirty flag are
  as before the call. Only the caller's output parameters are written.
\<close>

theorem GetTextureData_pure_observer:
  "(store_inv s \<longrightarrow> (\<exists>out. GetTextureData s data = Inr (s, out, m_Width s, m_Height s))) \<and>
   (GetTextureData s data = Inr (s', out', w, h) \<longrightarrow>
      s' = s \<and> m_Buffer s' = m_Buffer s \<and> m_Width s' = m_Width s \<and>
      m_Height s' = m_Height s \<and> m_IsDirty s' = m_IsDirty s)"
  using GetTextureData_returns [of s data] GetTextureData_Inr [of s data s' out' w h] by auto

theorem GetTextureData_pure_observer_witness:
  "store_inv store_2x1 \<and>
   GetTextureData store_2x1 [] = Inr (store_2x1, [30, 20, 10, 40, 70, 60, 50, 80], 2, 1) \<and>
   m_Buffer store_2x1 = frame_2x1 \<and> m_IsDirty store_2x1"
  using GetTextureData_pure_observer
    [of store_2x1 "[]" store_2x1 "[30, 20, 10, 40, 70, 60, 50, 80]" 2 1]
    store_inv_2x1 GetTextureData_2x1
  by (simp add: store_2x1_def)

text \<open>
  Claim C5. After any sequence of store operations, from any state: the dirty flag is
  true right after an \<^verbatim>\<open>OnPaint\<close> call, false right after a \<^verbatim>\<open>ClearDirty\<close> call,
  and \<^verbatim>\<open>GetTextureData\<close> (like \<^verbatim>\<open>Resize\<close>) leaves the flag as it found it, so that
  the flag is cleared by \<^verbatim>\<open>ClearDirty\<close> alone.
\<close>

theorem dirty_flag_protocol:
  assumes "run_ops s ops = Inr s1"
  shows "(OnPaint s1 buffer width height = Inr s2 \<longrightarrow> IsDirty s2) \<and>
         \<not> IsDirty (ClearDirty s1) \<and>
         (GetTextureData s1 data = Inr (s3, out, w, h) \<longrightarrow> IsDirty s3 = IsDirty s1) \<and>
         (Resize s1 width' height' = Inr s4 \<longrightarrow> IsDirty s4 = IsDirty s1)"
  using OnPaint_Inr [of s1 buffer width height s2] GetTextureData_Inr [of s1 data s3 out w h]
    Resize_Inr [of s1 width' height' s4]
  by (auto simp: IsDirty_def ClearDirty_def)

theorem dirty_flag_protocol_witness:
  "run_ops store_empty [Op_OnPaint frame_1x1 1 1, Op_ClearDirty, Op_OnPaint frame_2x1 2 1]
     = Inr store_2x1 \<and>
   IsDirty store_2x1 \<and> \<not> IsDirty (ClearDirty store_2x1) \<and>
   OnPaint store_2x1 frame_2x1 2 1 = Inr store_2x1 \<and>
   GetTextureData store_2x1 [] = Inr (store_2x1, [30, 20, 10, 40, 70, 60, 50, 80], 2, 1) \<and>
   Resize store_2x1 1 1 =
     Inr \<lparr>m_Buffer = [10, 20, 30, 40], m_Width = 1, m_Height = 1, m_IsDirty = True\<rparr>"
proof -
  have run: "run_ops store_empty
      [Op_OnPaint frame_1x1 1 1, Op_ClearDirty, Op_OnPaint frame_2x1 2 1] = Inr store_2x1"
    by (simp add: OnPaint_empty_1x1)
       (simp add: OnPaint_def byte_count_examples vector_resize_def resize_to_def memcpy_def
          ClearDirty_def store_2x1_def store_1x1_def frame_1x1_def frame_2x1_def)
  have paint: "OnPaint store_2x1 frame_2x1 2 1 = Inr store_2x1"
    by (simp add: OnPaint_def byte_count_examples memcpy_def store_2x1_def frame_2x1_def)
  have resize: "Resize store_2x1 1 1 =
     Inr \<lparr>m_Buffer = [10, 20, 30, 40], m_Width = 1, m_Height = 1, m_IsDirty = True\<rparr>"
    by (simp add: Resize_def byte_count_examples vector_resize_def resize_to_def
        store_2x1_def frame_2x1_def)
  from dirty_flag_protocol [OF run, of frame_2x1 2 1 store_2x1 "[]" store_2x1
      "[30, 20, 10, 40, 70, 60, 50, 80]" 2 1 1 1
      "\<lparr>m_Buffer = [10, 20, 30, 40], m_Width = 1, m_Height = 1, m_IsDirty = True\<rparr>"]
  show ?thesis using run paint resize GetTextureData_2x1 by (simp add: IsDirty_def)
qed

text \<open>
  Claim C8. \<^verbatim>\<open>GetViewRect\<close> returns the rectangle with origin (0, 0) and the stored
  width and height, in every state. After a construction with \<open>(w, h)\<close>, or after
  \<^verbatim>\<open>Resize(w, h)\<close>, and any further operations none of which asks for other
  dimensions, the rectangle is exactly \<open>(0, 0, w, h)\<close>.
\<close>

theorem GetViewRect_stored_dimensions:
  "GetViewRect s = \<lparr>rect_x = 0, rect_y = 0, rect_width = m_Width s, rect_height = m_Height s\<rparr> \<and>
   (CefRenderHandlerImpl_ctor w h = Inr s0 \<and> list_all (keeps_dims w h) ops \<and>
      run_ops s0 ops = Inr s1 \<longrightarrow>
      GetViewRect s1 = \<lparr>rect_x = 0, rect_y = 0, rect_width = w, rect_height = h\<rparr>) \<and>
   (Resize s w h = Inr s0 \<and> list_all (keeps_dims w h) ops \<and> run_ops s0 ops = Inr s1 \<longrightarrow>
      GetViewRect s1 = \<lparr>rect_x = 0, rect_y = 0, rect_width = w, rect_height = h\<rparr>)"
  using ctor_Inr [of w h s0] Resize_Inr [of s w h s0] run_ops_dims [of w h ops s0 s1]
  by (auto simp: GetViewRect_def)

theorem GetViewRect_stored_dimensions_witness:
  "CefRenderHandlerImpl_ctor 2 1 =
     Inr \<lparr>m_Buffer = replicate 8 0, m_Width = 2, m_Height = 1, m_IsDirty = False\<rparr> \<and>
   list_all (keeps_dims 2 1) [Op_OnPaint frame_2x1 2 1, Op_GetViewRect, Op_GetTextureData []] \<and>
   run_ops \<lparr>m_Buffer = replicate 8 0, m_Width = 2, m_Height = 1, m_IsDirty = False\<rparr>
     [Op_OnPaint frame_2x1 2 1, Op_GetViewRect, Op_GetTextureData []] = Inr store_2x1 \<and>
   Resize store_1x1 2 1 =
     Inr \<lparr>m_Buffer = [1, 2, 3, 4, 0, 0, 0, 0], m_Width = 2, m_Height = 1, m_IsDirty = True\<rparr> \<and>
   run_ops \<lparr>m_Buffer = [1, 2, 3, 4, 0, 0, 0, 0], m_Width = 2, m_Height = 1, m_IsDirty = True\<rparr>
     [Op_OnPaint frame_2x1 2 1, Op_GetViewRect, Op_GetTextureData []] = Inr store_2x1 \<and>
   GetViewRect store_2x1 = \<lparr>rect_x = 0, rect_y = 0, rect_width = 2, rect_height = 1\<rparr> \<and>
   GetViewRect store_1x1 = \<lparr>rect_x = 0, rect_y = 0, rect_width = 1, rect_height = 1\<rparr>"
proof -
  let ?ops = "[Op_OnPaint frame_2x1 2 1, Op_GetViewRect, Op_GetTextureData []]"
  let ?c = "\<lparr>m_Buffer = replicate 8 0, m_Width = 2, m_Height = 1, m_IsDirty = False\<rparr>"
  let ?r = "\<lparr>m_Buffer = [1, 2, 3, 4, 0, 0, 0, 0], m_Width = 2, m_Height = 1, m_IsDirty = True\<rparr>"
  have ctor: "CefRenderHandlerImpl_ctor 2 1 = Inr ?c"
    by (simp add: CefRenderHandlerImpl_ctor_def byte_count_examples vector_resize_def
        resize_to_def)
  have zeros: "replicate 4 (0::byte) = [0, 0, 0, 0]"
    by (simp add: numeral_eq_Suc)
  have resize: "Resize store_1x1 2 1 = Inr ?r"
    by (simp add: Resize_def byte_count_examples vector_resize_def resize_to_def
        store_1x1_def frame_1x1_def zeros)
  have paint: "OnPaint ?c frame_2x1 2 1 = Inr store_2x1" "OnPaint ?r frame_2x1 2 1 = Inr store_2x1"
    by (simp_all add: OnPaint_def byte_count_examples memcpy_def store_2x1_def frame_2x1_def)
  have run: "run_ops ?c ?ops = Inr store_2x1" "run_ops ?r ?ops = Inr store_2x1"
    by (simp_all add: paint GetTextureData_2x1)
  have keeps: "list_all (keeps_dims 2 1) ?ops" by simp
  from GetViewRect_stored_dimensions [of store_1x1 2 1 ?c ?ops store_2x1]
    GetViewRect_stored_dimensions [of store_1x1 2 1 ?r ?ops store_2x1]
  show ?thesis using ctor resize run keeps
    by (simp add: store_1x1_def)
qed

text \<open>
  Claim C9. Every state that the constructor and any sequence of store operations
  (\<^verbatim>\<open>OnPaint\<close>, \<^verbatim>\<open>GetTextureData\<close>, \<^verbatim>\<open>ClearDirty\<close>, \<^verbatim>\<open>Resize\<close> and the observers)
  reach has a buffer of exactly stored width times stored height times 4 bytes, and
  \<^verbatim>\<open>GetTextureData\<close> returns there a buffer of returned width times returned height
  times 4 bytes. A call that faults (an overflowing or negative byte count, a source
  buffer that is too short) ends the run and reaches no state.
\<close>

theorem store_size_invariant:
  assumes "CefRenderHandlerImpl_ctor w h = Inr s0" and "run_ops s0 ops = Inr s"
  shows "int (length (m_Buffer s)) = m_Width s * m_Height s * 4 \<and>
         (\<exists>out. GetTextureData s data = Inr (s, out, m_Width s, m_Height s) \<and>
                 int (length out) = m_Width s * m_Height s * 4)"
proof -
  from assms have inv: "store_inv s"
    using ctor_Inr [of w h s0] run_ops_inv [of s0 ops s] by simp
  from GetTextureData_returns [OF inv, of data] inv show ?thesis
    by (auto simp: store_inv_def)
qed

theorem store_size_invariant_witness:
  "CefRenderHandlerImpl_ctor 0 0 = Inr store_empty \<and>
   run_ops store_empty [Op_OnPaint frame_1x1 1 1, Op_ClearDirty, Op_OnPaint frame_2x1 2 1]
     = Inr store_2x1 \<and>
   int (length (m_Buffer store_2x1)) = m_Width store_2x1 * m_Height store_2x1 * 4 \<and>
   (\<exists>out. GetTextureData store_2x1 [] = Inr (store_2x1, out, 2, 1) \<and> int (length out) = 8)"
proof -
  have run: "run_ops store_empty
      [Op_OnPaint frame_1x1 1 1, Op_ClearDirty, Op_OnPaint frame_2x1 2 1] = Inr store_2x1"
    by (simp add: OnPaint_empty_1x1)
       (simp add: OnPaint_def byte_count_examples vector_resize_def resize_to_def memcpy_def
          ClearDirty_def store_2x1_def store_1x1_def frame_1x1_def frame_2x1_def)
  from store_size_invariant [OF ctor_empty run, of "[]"]
  show ?thesis using ctor_empty run by (simp add: store_2x1_def)
qed

text \<open>
  Claim C4. For every pair of \<^verbatim>\<open>OnPaint\<close> calls, the second with a width or a height
  other than the first's, a \<^verbatim>\<open>GetTextureData\<close> after the second call returns the new
  dimensions and a buffer of exactly new width times new height times 4 bytes, whatever
  the store was before the first call and whatever vector the caller passes.
\<close>

theorem OnPaint_resizes_to_new_dimensions:
  assumes "OnPaint s0 buf1 w1 h1 = Inr s1" and "OnPaint s1 buf2 w2 h2 = Inr s2"
    and "w2 \<noteq> w1 \<or> h2 \<noteq> h1"
  shows "\<exists>out. GetTextureData s2 data = Inr (s2, out, w2, h2) \<and>
               int (length out) = w2 * h2 * 4"
proof -
  from OnPaint_Inr [OF assms(1)] have "m_Width s1 = w1" "m_Height s1 = h1" by auto
  with OnPaint_Inr [OF assms(2)] assms(3)
  have inv: "store_inv s2" and dims: "m_Width s2 = w2" "m_Height s2 = h2" by auto
  from GetTextureData_returns [OF inv, of data] inv dims show ?thesis
    by (auto simp: store_inv_def)
qed

theorem OnPaint_resizes_to_new_dimensions_witness:
  "OnPaint store_empty frame_1x1 1 1 = Inr store_1x1 \<and>
   OnPaint store_1x1 frame_2x1 2 1 = Inr store_2x1 \<and> (2::int) \<noteq> 1 \<and>
   (\<exists>out. GetTextureData store_2x1 [] = Inr (store_2x1, out, 2, 1) \<and>
          int (length out) = 2 * 1 * 4)"
proof -
  have "(2::int) \<noteq> 1 \<or> (1::int) \<noteq> 1" by simp
  from OnPaint_resizes_to_new_dimensions [OF OnPaint_empty_1x1 OnPaint_1x1_2x1 this, of "[]"]
  show ?thesis using OnPaint_empty_1x1 OnPaint_1x1_2x1 by simp
qed

text \<open>
  Claim C1, as the code has it. For every width and height above 0 whose byte count
  \<open>width * height * 4\<close> is at most \<^verbatim>\<open>INT_MAX\<close>, every input buffer of that many
  bytes and every store state that satisfies the size invariant: \<^verbatim>\<open>OnPaint\<close> returns,
  \<^verbatim>\<open>GetTextureData\<close> then returns the dimensions and a buffer of exactly
  \<open>width * height * 4\<close> bytes; a byte at an index that is 1 or 3 modulo 4 is the input
  byte at that index, a byte at an index that is 0 modulo 4 is the input byte two places
  later, and a byte at an index that is 2 modulo 4 is the input byte two places earlier.
  The frame \<open>[10, 20, 30, 40, 50, 60, 70, 80]\<close> of 2 by 1 pixels comes out as
  \<open>[30, 20, 10, 40, 70, 60, 50, 80]\<close>.
\<close>

theorem OnPaint_GetTextureData_roundtrip:
  assumes "store_inv s" and "0 < w" and "0 < h" and "w * h * 4 \<le> INT_MAX"
    and "int (length buf) = w * h * 4"
  shows "\<exists>s' out. OnPaint s buf w h = Inr s' \<and>
           GetTextureData s' data = Inr (s', out, w, h) \<and>
           int (length out) = w * h * 4 \<and>
           (\<forall>k<length out.
              (k mod 4 = 1 \<or> k mod 4 = 3 \<longrightarrow> out ! k = buf ! k) \<and>
              (k mod 4 = 0 \<longrightarrow> out ! k = buf ! (k + 2)) \<and>
              (k mod 4 = 2 \<longrightarrow> out ! k = buf ! (k - 2))) \<and>
           (w = 2 \<and> h = 1 \<and> buf = [10, 20, 30, 40, 50, 60, 70, 80] \<longrightarrow>
              out = [30, 20, 10, 40, 70, 60, 50, 80])"
proof -
  define N where "N = w * h * 4"
  have N: "0 \<le> N" "N \<le> INT_MAX" "int (length buf) = N"
    using assms by (simp_all add: N_def)
  then have len: "nat N = length buf" by simp
  have pre: "0 \<le> w * h * 4" "w * h * 4 \<le> INT_MAX" "nat (w * h * 4) \<le> length buf"
    using N len unfolding N_def by simp_all
  from OnPaint_returns [OF assms(1) pre] obtain s' where
    s': "OnPaint s buf w h = Inr s'" by blast
  from OnPaint_Inr [OF s'] assms(1) have inv: "store_inv s'"
    and dims: "m_Width s' = w" "m_Height s' = h"
    and b: "m_Buffer s' = take (nat N) buf" by (auto simp: N_def)
  from b len have buf: "m_Buffer s' = buf" by simp
  define out where "out = map (\<lambda>k. buf ! swap_index k) [0..<length buf]"
  have get: "GetTextureData s' data = Inr (s', out, w, h)"
    using GetTextureData_map [OF inv, of data] by (simp add: buf dims out_def)
  have "int (length out) = w * h * 4" using N by (simp add: out_def N_def)
  moreover have "out ! k = buf ! swap_index k" if "k < length out" for k
    using that by (simp add: out_def)
  then have "\<forall>k<length out.
              (k mod 4 = 1 \<or> k mod 4 = 3 \<longrightarrow> out ! k = buf ! k) \<and>
              (k mod 4 = 0 \<longrightarrow> out ! k = buf ! (k + 2)) \<and>
              (k mod 4 = 2 \<longrightarrow> out ! k = buf ! (k - 2))"
    by (auto simp: nth_swap_index)
  moreover have "out = [30, 20, 10, 40, 70, 60, 50, 80]"
    if "buf = [10, 20, 30, 40, 50, 60, 70, 80]"
    unfolding out_def that by (simp add: swap_index_def upt_rec)
  ultimately show ?thesis using s' get by blast
qed

theorem OnPaint_GetTextureData_roundtrip_witness:
  "store_inv store_1x1 \<and> (0::int) < 2 \<and> (0::int) < 1 \<and> (2::int) * 1 * 4 \<le> INT_MAX \<and>
   int (length frame_2x1) = 2 * 1 * 4 \<and>
   OnPaint store_1x1 frame_2x1 2 1 = Inr store_2x1 \<and>
   GetTextureData store_2x1 [] = Inr (store_2x1, [30, 20, 10, 40, 70, 60, 50, 80], 2, 1)"
proof -
  have inv: "store_inv store_1x1"
    by (simp add: store_inv_def store_1x1_def frame_1x1_def)
  have le: "(2::int) * 1 * 4 \<le> INT_MAX" by (simp add: INT_MAX_def)
  have len: "int (length frame_2x1) = 2 * 1 * 4" by (simp add: frame_2x1_def)
  from OnPaint_GetTextureData_roundtrip [OF inv _ _ le len, of "[]"]
  show ?thesis using inv le len OnPaint_1x1_2x1 GetTextureData_2x1 by simp
qed

text \<open>
  The bound on the byte count is needed. A frame of 32768 by 32768 pixels has positive
  dimensions and a buffer of \<open>32768 * 32768 * 4\<close> bytes can be passed, but the
  \<^verbatim>\<open>int\<close> product \<^verbatim>\<open>width * height * 4\<close> overflows: on the store that the application
  builds (800 by 600), \<^verbatim>\<open>OnPaint\<close> has undefined behaviour and nothing is returned.
\<close>

theorem OnPaint_overflow_counterexample:
  "(0::int) < 32768 \<and>
   int (length (replicate 4294967296 (0::byte))) = 32768 * 32768 * 4 \<and>
   CefRenderHandlerImpl_ctor 800 600 =
     Inr \<lparr>m_Buffer = replicate 1920000 0, m_Width = 800, m_Height = 600, m_IsDirty = False\<rparr> \<and>
   OnPaint \<lparr>m_Buffer = replicate 1920000 0, m_Width = 800, m_Height = 600, m_IsDirty = False\<rparr>
     (replicate 4294967296 0) 32768 32768 = Inl SignedOverflow"
  by (simp add: CefRenderHandlerImpl_ctor_def OnPaint_def byte_count_def int_mul_def
      INT_MIN_def INT_MAX_def vector_resize_def resize_to_def)

section \<open>Properties of the lifecycle adapter\<close>

lemma client_run_append: "client_run c (xs @ ys) = client_run (client_run c xs) ys"
  by (simp add: client_run_def)

lemma client_run_Cons: "client_run c (x # xs) = client_run (client_step c x) xs"
  by (simp add: client_run_def)

lemma client_run_no_lifecycle:
  "\<forall>x\<in>set xs. \<not> is_lifecycle x \<Longrightarrow> client_run c xs = c"
proof (induction xs arbitrary: c)
  case Nil
  then show ?case by (simp add: client_run_def)
next
  case (Cons x xs)
  then have "client_step c x = c" by (cases x) auto
  with Cons show ?case by (simp add: client_run_Cons)
qed

lemma client_run_no_created:
  "\<forall>x\<in>set xs. \<not> is_created x \<Longrightarrow> m_Browser c = None \<Longrightarrow> m_Browser (client_run c xs) = None"
proof (induction xs arbitrary: c)
  case Nil
  then show ?case by (simp add: client_run_def)
next
  case (Cons x xs)
  then have "m_Browser (client_step c x) = None"
    by (cases x) (auto simp: OnBeforeClose_def)
  with Cons show ?case by (simp add: client_run_Cons)
qed

text \<open>
  Claim C6, as the code has it. For every sequence of calls on a fresh
  \<^verbatim>\<open>CefClientImpl\<close>: \<^verbatim>\<open>GetBrowser\<close> returns null as long as no \<^verbatim>\<open>OnAfterCreated\<close>
  has arrived; it returns null after an \<^verbatim>\<open>OnBeforeClose\<close>, until the next
  \<^verbatim>\<open>OnAfterCreated\<close>; and after an \<^verbatim>\<open>OnAfterCreated\<close> it returns exactly the handle
  passed to that notification, at every point up to the next lifecycle notification. A
  later \<^verbatim>\<open>OnAfterCreated\<close> replaces the handle: the accessor returns the handle of the
  most recent creation, not that of an earlier one.
\<close>

theorem GetBrowser_lifecycle:
  "((\<forall>x\<in>set cs. \<not> is_created x) \<longrightarrow>
      GetBrowser (client_run (CefClientImpl_ctor rh) cs) = None) \<and>
   ((\<forall>x\<in>set post. \<not> is_created x) \<longrightarrow>
      GetBrowser (client_run (CefClientImpl_ctor rh) (pre @ Call_OnBeforeClose b # post)) = None) \<and>
   ((\<forall>x\<in>set post. \<not> is_lifecycle x) \<longrightarrow>
      GetBrowser (client_run (CefClientImpl_ctor rh) (pre @ Call_OnAfterCreated browser # post))
        = browser)"
proof (intro conjI impI)
  assume "\<forall>x\<in>set cs. \<not> is_created x"
  then show "GetBrowser (client_run (CefClientImpl_ctor rh) cs) = None"
    using client_run_no_created [of cs "CefClientImpl_ctor rh"]
    by (simp add: GetBrowser_def CefClientImpl_ctor_def)
next
  assume "\<forall>x\<in>set post. \<not> is_created x"
  then show "GetBrowser (client_run (CefClientImpl_ctor rh) (pre @ Call_OnBeforeClose b # post)) = None"
    using client_run_no_created
      [of post "OnBeforeClose (client_run (CefClientImpl_ctor rh) pre) b"]
    by (simp add: GetBrowser_def client_run_append client_run_Cons OnBeforeClose_def)
next
  assume "\<forall>x\<in>set post. \<not> is_lifecycle x"
  then show "GetBrowser (client_run (CefClientImpl_ctor rh) (pre @ Call_OnAfterCreated browser # post))
        = browser"
    using client_run_no_lifecycle
      [of post "OnAfterCreated (client_run (CefClientImpl_ctor rh) pre) browser"]
    by (simp add: GetBrowser_def client_run_append client_run_Cons OnAfterCreated_def)
qed

theorem GetBrowser_lifecycle_witness:
  "\<not> is_created (Call_GetBrowser :: nat client_call) \<and>
   \<not> is_lifecycle (Call_GetRenderHandler :: nat client_call) \<and>
   GetBrowser (client_run (CefClientImpl_ctor (Some (1::nat)))
      [Call_GetBrowser, Call_GetRenderHandler :: nat client_call]) = None \<and>
   GetBrowser (client_run (CefClientImpl_ctor (Some (1::nat)))
      ([Call_GetBrowser] @ Call_OnAfterCreated (Some (7::nat)) #
       [Call_GetBrowser, Call_GetRenderHandler])) = Some 7 \<and>
   GetBrowser (client_run (CefClientImpl_ctor (Some (1::nat)))
      ([Call_OnAfterCreated (Some (7::nat)), Call_GetBrowser] @ Call_OnBeforeClose (Some 7) #
       [Call_GetBrowser, Call_GetRenderHandler])) = None"
  using GetBrowser_lifecycle [of "[Call_GetBrowser, Call_GetRenderHandler :: nat client_call]"
      "Some (1::nat)" "[Call_GetBrowser, Call_GetRenderHandler]"
      "[Call_OnAfterCreated (Some (7::nat)), Call_GetBrowser]" "Some (7::nat)" None]
    GetBrowser_lifecycle [of "[] :: nat client_call list" "Some (1::nat)"
      "[Call_GetBrowser, Call_GetRenderHandler]" "[Call_GetBrowser]" "Some (7::nat)"
      "Some (7::nat)"]
  by simp

text \<open>
  The window of a creation does not reach to the following \<^verbatim>\<open>OnBeforeClose\<close> in
  every sequence. A second browser created on the same client, with no close between:
  the accessor returns the second handle, though the point lies after the creation of
  the first and before any \<^verbatim>\<open>OnBeforeClose\<close>.
\<close>

theorem GetBrowser_second_creation_counterexample:
  "\<not> is_closing (Call_OnAfterCreated (Some (9::nat))) \<and>
   GetBrowser (client_run (CefClientImpl_ctor (Some (1::nat)))
      ([] @ Call_OnAfterCreated (Some (7::nat)) # [Call_OnAfterCreated (Some 9)])) = Some 9 \<and>
   GetBrowser (client_run (CefClientImpl_ctor (Some (1::nat)))
      ([] @ Call_OnAfterCreated (Some (7::nat)) # [Call_OnAfterCreated (Some 9)])) \<noteq> Some 7"
  by (simp add: GetBrowser_def client_run_def OnAfterCreated_def CefClientImpl_ctor_def)

section \<open>Properties of the texture bridge\<close>

subsection \<open>Counting recreations and in-place updates\<close>


lemma recreation_count_append [simp]:
  "recreation_count (xs @ ys) = recreation_count xs + recreation_count ys"
  by (simp add: recreation_count_def)

lemma in_place_count_append [simp]:
  "in_place_count (xs @ ys) = in_place_count xs + in_place_count ys"
  by (simp add: in_place_count_def)










lemma clean_up_fields:
  "m_RenderHandler (clean_up_old_resources a) = m_RenderHandler a"
  "m_BrowserWidth (clean_up_old_resources a) = m_BrowserWidth a"
  "m_BrowserHeight (clean_up_old_resources a) = m_BrowserHeight a"
  "m_CefTextureSampler (clean_up_old_resources a) = m_CefTextureSampler a"
  by (simp_all add: clean_up_old_resources_def Let_def)


lemma create_new_fields:
  "m_RenderHandler (create_new_texture r a w h) = m_RenderHandler a"
  "m_BrowserWidth (create_new_texture r a w h) = m_BrowserWidth a"
  "m_BrowserHeight (create_new_texture r a w h) = m_BrowserHeight a"
  "m_CefTextureImage (create_new_texture r a w h) =
     fst (CreateTextureImage r (m_Renderer a) (uint32_of_int w) (uint32_of_int h))"
  by (simp_all add: create_new_texture_def Let_def split_def)








subsection \<open>The recreation path\<close>




lemma calls_kept:
  "x \<in> set (calls d) \<Longrightarrow> x \<in> set (calls (snd (CreateTextureImage r d w h)))"
  "x \<in> set (calls d) \<Longrightarrow> x \<in> set (calls (snd (CreateImageView r d i)))"
  "x \<in> set (calls d) \<Longrightarrow> x \<in> set (calls (snd (CreateTextureSampler r d)))"
  "x \<in> set (calls d) \<Longrightarrow> x \<in> set (calls (snd (AddTexture d s v)))"
  by (auto simp: CreateTextureImage_def CreateBuffer_def CreateImageView_def
      CreateTextureSampler_def AddTexture_def fresh_def emit_def Let_def split_def)





subsection \<open>The stored dimensions are those of the texture\<close>

lemma CreateTextureImage_result:
  "fst (CreateTextureImage r d w h) = VK_NULL_HANDLE \<or>
   vkCreateImage w h (fst (CreateTextureImage r d w h))
     \<in> set (calls (snd (CreateTextureImage r d w h)))"
  by (simp add: CreateTextureImage_def CreateBuffer_def fresh_def emit_def Let_def split_def)

lemma UpdateTextureImage_keeps_calls:
  "x \<in> set (calls d) \<Longrightarrow> x \<in> set (calls (UpdateTextureImage d i w h))"
  by (simp add: UpdateTextureImage_def CreateBuffer_def fresh_def emit_def Let_def split_def)

lemma create_new_texture_extent:
  "m_BrowserWidth a = w \<Longrightarrow> m_BrowserHeight a = h \<Longrightarrow>
     texture_extent_recorded (create_new_texture r a w h)"
proof -
  assume wh: "m_BrowserWidth a = w" "m_BrowserHeight a = h"
  let ?t = "CreateTextureImage r (m_Renderer a) (uint32_of_int w) (uint32_of_int h)"
  let ?b = "create_new_texture r a w h"
  have img: "m_CefTextureImage ?b = fst ?t" by (simp add: create_new_fields)
  have kept: "x \<in> set (calls (m_Renderer ?b))" if "x \<in> set (calls (snd ?t))" for x
    using that by (simp add: create_new_texture_def Let_def split_def calls_kept)
  from CreateTextureImage_result [of r "m_Renderer a" "uint32_of_int w" "uint32_of_int h"]
  show ?thesis
    unfolding texture_extent_recorded_def img
    using kept by (auto simp: create_new_fields wh)
qed

lemma UpdateCefTexture_keeps_extent:
  assumes "texture_extent_recorded a" and "UpdateCefTexture r a = Inr a'"
  shows "texture_extent_recorded a'"
proof (cases "IsDirty (m_RenderHandler a)")
  case False
  with assms show ?thesis by (simp add: UpdateCefTexture_def)
next
  case True
  from assms(2) True obtain rh out w h where
    get: "GetTextureData (m_RenderHandler a) [] = Inr (rh, out, w, h)"
    by (cases "GetTextureData (m_RenderHandler a) []") (auto simp: UpdateCefTexture_def)
  from GetTextureData_Inr [OF get] have eq: "rh = m_RenderHandler a" by simp
  define a0 where "a0 = a\<lparr>m_RenderHandler := rh\<rparr>"
  have a0: "a0 = a" unfolding a0_def eq by (cases a) simp
  define b where "b = create_new_texture r
        (clean_up_old_resources (a0\<lparr>m_BrowserWidth := w, m_BrowserHeight := h\<rparr>)) w h"
  define c where "c = a0\<lparr>m_Renderer := UpdateTextureImage (m_Renderer a0) (m_CefTextureImage a0)
            (uint32_of_int w) (uint32_of_int h)\<rparr>"
  define a1 where "a1 =
    (if m_CefTextureImage a0 = VK_NULL_HANDLE \<or> w \<noteq> m_BrowserWidth a0 \<or> h \<noteq> m_BrowserHeight a0
     then b else c)"
  have a': "a' = a1\<lparr>m_RenderHandler := ClearDirty (m_RenderHandler a1)\<rparr>"
    using assms(2) True unfolding UpdateCefTexture_def get a1_def b_def c_def a0_def
    by (simp add: Let_def)
  have b: "texture_extent_recorded b"
    unfolding b_def by (rule create_new_texture_extent) (simp_all add: clean_up_fields)
  have c: "texture_extent_recorded c"
    using assms(1) unfolding c_def a0 texture_extent_recorded_def
    by (auto simp: UpdateTextureImage_keeps_calls)
  from b c have "texture_extent_recorded a1" by (simp add: a1_def)
  then show ?thesis by (simp add: a' texture_extent_recorded_def)
qed

lemma Sync_keeps_extent:
  assumes "texture_extent_recorded a" and "Sync r a buf w h = Inr a'"
  shows "texture_extent_recorded a'"
proof -
  from assms(2) obtain rh where
    up: "UpdateCefTexture r (a\<lparr>m_RenderHandler := rh\<rparr>) = Inr a'"
    by (cases "OnPaint (m_RenderHandler a) buf w h") (auto simp: Sync_def)
  from assms(1) have "texture_extent_recorded (a\<lparr>m_RenderHandler := rh\<rparr>)"
    by (simp add: texture_extent_recorded_def)
  from UpdateCefTexture_keeps_extent [OF this up] show ?thesis .
qed

lemma Application_init_extent:
  "Application_init d = Inr a0 \<Longrightarrow> texture_extent_recorded a0"
  by (auto simp: Application_init_def texture_extent_recorded_def split: sum.splits)



subsection \<open>The claims about the texture bridge\<close>






text \<open>
  The previous texture state is not left in place. From the initialised application, a
  frame of 2 by 1 creates image 4, view 6 and descriptor set 8; a frame of 1 by 1 whose
  image creation fails then leaves no image, neither 4 nor 6 live, and another view and
  another descriptor set in the members.
\<close>

lemmas model_defs =
  Application_init_def CefRenderHandlerImpl_ctor_def byte_count_def int_mul_def INT_MIN_def
  INT_MAX_def vector_resize_def resize_to_def memcpy_def Sync_def OnPaint_def
  UpdateCefTexture_def GetTextureData_def IsDirty_def ClearDirty_def
  create_new_texture_def clean_up_old_resources_def CreateTextureImage_def CreateBuffer_def
  UpdateTextureImage_def CreateImageView_def CreateTextureSampler_def AddTexture_def
  DestroyImageView_def DestroyImage_def emit_def fresh_def uint32_of_int_def VK_NULL_HANDLE_def
  device0_def driver_ok_def driver_no_image_def frame_2x1_def frame_1x1_def
  Run_body_def RenderUI_def BeginFrame_def EndFrame_def Cleanup_def


text \<open>
  Claim C7 does not hold on the code. Two rounds of the frame loop, the first painted
  with a frame of 2 by 1, the second with a frame of 1 by 1: the first round ends with
  the submission of the frame that draws the texture, and the next calls of the second
  round are the destruction of view 6 and image 4, with no wait between. The calls of the
  first round alone respect the ordering rule, and so does \<^verbatim>\<open>Cleanup\<close>, which waits
  for the device before it destroys the same objects.
\<close>

theorem recreation_destroys_without_wait:
  "(case Application_init device0 of Inl e \<Rightarrow> False | Inr a0 \<Rightarrow>
     (case Run_body driver_ok (Some (frame_2x1, 2, 1)) a0 of Inl e \<Rightarrow> False | Inr a1 \<Rightarrow>
       (case Run_body driver_ok (Some (frame_1x1, 1, 1)) a1 of Inl e \<Rightarrow> False | Inr a2 \<Rightarrow>
          destroys_after_wait False (calls (m_Renderer a1)) \<and>
          take 5 (drop 34 (calls (m_Renderer a2))) =
            [vkQueueSubmit 1, vkQueuePresentKHR,
             vkDestroyImageView 6, vkDestroyImage 4, vkFreeMemory 0] \<and>
          \<not> destroys_after_wait False (calls (m_Renderer a2)) \<and>
          destroys_after_wait False (calls (m_Renderer (Cleanup a1))))))"
  by (simp add: model_defs Let_def split_def convert_loop.simps)


end
